theory Spec2Isabelle
  imports Complex_Main
begin

section \<open>Plane geometry of \<open>PlaneAndLines.py\<close>\<close>

text \<open>
  The source computes with numpy arrays of three IEEE doubles. The embedding reads every
  double as a real number, so the theorems below are statements about the formulas of the source
  in exact real arithmetic; rounding is not modelled. The divisors of the source are guarded
  (a coefficient above \<open>1e-6\<close>, a norm plus \<open>1e-12\<close>, a norm tested against zero) or are norms
  of literal vectors other than zero, so the convention \<open>x / 0 = 0\<close> of HOL is never what a
  result below rests on.
\<close>

subsection \<open>Vectors (numpy arrays of length three)\<close>

type_synonym vec3 = "real \<times> real \<times> real"

text \<open>\<open>u + v\<close>, \<open>u - v\<close>, \<open>k * v\<close> and \<open>v / k\<close> on arrays act componentwise.\<close>

fun vadd :: "vec3 \<Rightarrow> vec3 \<Rightarrow> vec3" where
  "vadd (x1, y1, z1) (x2, y2, z2) = (x1 + x2, y1 + y2, z1 + z2)"

fun vsub :: "vec3 \<Rightarrow> vec3 \<Rightarrow> vec3" where
  "vsub (x1, y1, z1) (x2, y2, z2) = (x1 - x2, y1 - y2, z1 - z2)"

fun smul :: "real \<Rightarrow> vec3 \<Rightarrow> vec3" where
  "smul k (x, y, z) = (k * x, k * y, k * z)"

fun sdiv :: "vec3 \<Rightarrow> real \<Rightarrow> vec3" where
  "sdiv (x, y, z) k = (x / k, y / k, z / k)"

text \<open>\<open>np.dot\<close>, \<open>np.cross\<close>, \<open>np.linalg.norm\<close> and \<open>np.clip\<close>.\<close>

fun np_dot :: "vec3 \<Rightarrow> vec3 \<Rightarrow> real" where
  "np_dot (x1, y1, z1) (x2, y2, z2) = x1 * x2 + y1 * y2 + z1 * z2"

fun np_cross :: "vec3 \<Rightarrow> vec3 \<Rightarrow> vec3" where
  "np_cross (x1, y1, z1) (x2, y2, z2) =
     (y1 * z2 - z1 * y2, z1 * x2 - x1 * z2, x1 * y2 - y1 * x2)"

fun linalg_norm :: "vec3 \<Rightarrow> real" where
  "linalg_norm (x, y, z) = sqrt (x * x + y * y + z * z)"

definition np_clip :: "real \<Rightarrow> real \<Rightarrow> real \<Rightarrow> real" where
  "np_clip x lo hi = min (max x lo) hi"

text \<open>\<open>n[0]\<close>, the first component of an array.\<close>

fun idx0 :: "vec3 \<Rightarrow> real" where
  "idx0 (x, y, z) = x"

subsection \<open>The plane of \<open>make_plane_general\<close>\<close>

text \<open>
  What \<open>make_plane_general\<close> derives from the coefficients before it draws: the point on the
  plane, the scaled normal \<open>n\<close> and the two in-plane vectors \<open>e1\<close>, \<open>e2\<close> (source lines 167-185).
  The arrow drawn afterwards (line 207) divides by the norm itself and is no part of the frame.
\<close>

record plane_frame =
  frame_point :: vec3
  frame_normal :: vec3
  frame_e1 :: vec3
  frame_e2 :: vec3

definition make_plane_general :: "real \<Rightarrow> real \<Rightarrow> real \<Rightarrow> real \<Rightarrow> plane_frame" where
  "make_plane_general a b c d =
     (let normal = (a, b, c);
          point_on_plane =
            (if \<bar>a\<bar> > 1 / 1000000 then (- d / a, 0, 0)
             else if \<bar>b\<bar> > 1 / 1000000 then (0, - d / b, 0)
             else if \<bar>c\<bar> > 1 / 1000000 then (0, 0, - d / c)
             else (0, 0, 0));
          n = sdiv normal (linalg_norm normal + 1 / 1000000000000);
          arbitrary = (if \<bar>idx0 n\<bar> < 0.9 then (1, 0, 0) else (0, 1, 0));
          e1 = np_cross n arbitrary;
          e1 = sdiv e1 (linalg_norm e1 + 1 / 1000000000000);
          e2 = np_cross n e1
      in \<lparr>frame_point = point_on_plane, frame_normal = n, frame_e1 = e1, frame_e2 = e2\<rparr>)"

text \<open>The surface function \<open>plane_point\<close> of \<open>make_plane_general\<close> (lines 187-189).\<close>

definition plane_point :: "plane_frame \<Rightarrow> real \<Rightarrow> real \<Rightarrow> vec3" where
  "plane_point F u v =
     vadd (vadd (frame_point F) (smul (u * 3) (frame_e1 F))) (smul (v * 3) (frame_e2 F))"

text \<open>The left-hand side \<open>a x + b y + c z + d\<close> of the plane equation at a point.\<close>

fun plane_eq :: "real \<Rightarrow> real \<Rightarrow> real \<Rightarrow> real \<Rightarrow> vec3 \<Rightarrow> real" where
  "plane_eq a b c d (x, y, z) = a * x + b * y + c * z + d"

subsection \<open>The plane of \<open>make_plane_normal_form\<close>\<close>

text \<open>
  Source lines 331-347: the normal is divided by its length (a zero normal is replaced by
  \<open>(0, 0, 1)\<close> with length \<open>1.0\<close>), the point on the plane is \<open>normal_unit * p\<close>, and the basis is
  built as in \<open>make_plane_general\<close>.
\<close>

definition make_plane_normal_form :: "real \<Rightarrow> real \<Rightarrow> real \<Rightarrow> real \<Rightarrow> plane_frame" where
  "make_plane_normal_form l m n p =
     (let normal = (l, m, n);
          norm_len = linalg_norm normal;
          (normal, norm_len) = (if norm_len = 0 then ((0, 0, 1), 1) else (normal, norm_len));
          normal_unit = sdiv normal norm_len;
          p_point = smul p normal_unit;
          arbitrary = (if \<bar>idx0 normal_unit\<bar> < 0.9 then (1, 0, 0) else (0, 1, 0));
          e1 = np_cross normal_unit arbitrary;
          e1 = sdiv e1 (linalg_norm e1 + 1 / 1000000000000);
          e2 = np_cross normal_unit e1
      in \<lparr>frame_point = p_point, frame_normal = normal_unit, frame_e1 = e1, frame_e2 = e2\<rparr>)"

subsection \<open>The angle of \<open>make_angle_between_planes_example\<close>\<close>

text \<open>
  Source lines 404-410 and 444-445. The two normals are literals of the source; here they are
  the arguments, and \<open>n1_literal\<close>, \<open>n2_literal\<close> are the values the source writes.
  The result is \<open>theta\<close>, the angle handed to the arc.
\<close>

definition make_angle_between_planes_example :: "vec3 \<Rightarrow> vec3 \<Rightarrow> real" where
  "make_angle_between_planes_example n1 n2 =
     (let n1_unit = sdiv n1 (linalg_norm n1);
          n2_unit = sdiv n2 (linalg_norm n2);
          dot = np_dot n1_unit n2_unit;
          theta = arccos (np_clip dot (- 1) 1)
      in theta)"

definition n1_literal :: vec3 where
  "n1_literal = (1, 0.8, 0.2)"

definition n2_literal :: vec3 where
  "n2_literal = (0.2, - 1.0, 0.6)"

subsection \<open>The intersection of \<open>make_line_plane_angle_example\<close>\<close>

text \<open>
  Source lines 515-520. Plane point, normal, line direction and line start are literals of the
  source and arguments here. The result is \<open>intersect\<close>, the point where the dot is drawn.
\<close>

definition make_line_plane_angle_example :: "vec3 \<Rightarrow> vec3 \<Rightarrow> vec3 \<Rightarrow> vec3 \<Rightarrow> vec3" where
  "make_line_plane_angle_example plane_pt normal v line_start =
     (let denom = np_dot normal v
      in if \<bar>denom\<bar> > 1 / 1000000
         then (let t = - np_dot normal (vsub line_start plane_pt) / denom
               in vadd line_start (smul t v))
         else line_start)"

subsection \<open>The distance of \<open>make_point_to_plane_distance_example\<close>\<close>

text \<open>
  Source lines 605-609 and 628. The coefficients and the point are literals of the source and
  arguments here. \<open>shown_value\<close> is the number formatted into the label,
  \<open>abs(numerator)/np.sqrt(denom)\<close>.
\<close>

record distance_example =
  dist_signed :: real
  foot_Q :: vec3
  shown_value :: real

fun make_point_to_plane_distance_example ::
  "real \<Rightarrow> real \<Rightarrow> real \<Rightarrow> real \<Rightarrow> vec3 \<Rightarrow> distance_example" where
  "make_point_to_plane_distance_example a b c d (P0, P1, P2) =
     (let normal = (a, b, c);
          numerator = a * P0 + b * P1 + c * P2 + d;
          denom = a * a + b * b + c * c;
          dist_signed = numerator / (sqrt denom + 1 / 1000000000000);
          factor = numerator / (denom + 1 / 1000000000000);
          Q = vsub (P0, P1, P2) (smul factor normal)
      in \<lparr>dist_signed = dist_signed, foot_Q = Q, shown_value = \<bar>numerator\<bar> / sqrt denom\<rparr>)"

subsection \<open>Variable colours\<close>







subsection \<open>The basis lines and the frame property\<close>

text \<open>
  Every factory repeats the same lines for \<open>arbitrary\<close> and \<open>e1\<close> (182-184 and 344-346);
  \<open>make_plane_general\<close> and \<open>make_plane_normal_form\<close> above inline them as the source does, and
  \<open>basis_e1\<close> writes them once, as a function of the normal, for the lemmas.
\<close>

definition basis_e1 :: "vec3 \<Rightarrow> vec3" where
  "basis_e1 n =
     (let arbitrary = (if \<bar>idx0 n\<bar> < 0.9 then (1, 0, 0) else (0, 1, 0));
          e1 = np_cross n arbitrary
      in sdiv e1 (linalg_norm e1 + 1 / 1000000000000))"


section \<open>Vector algebra\<close>

lemma dot_cross_left: "np_dot u (np_cross u v) = 0"
  by (cases u, cases v) (simp add: algebra_simps)


lemma dot_sdiv_left: "np_dot (sdiv u k) v = np_dot u v / k"
  by (cases u, cases v) (simp add: add_divide_distrib)

lemma dot_sdiv_right: "np_dot u (sdiv v k) = np_dot u v / k"
  by (cases u, cases v) (simp add: add_divide_distrib)

lemma dot_smul_right: "np_dot u (smul k v) = k * np_dot u v"
  by (cases u, cases v) (simp add: algebra_simps)

lemma dot_vadd_right: "np_dot u (vadd v w) = np_dot u v + np_dot u w"
  by (cases u, cases v, cases w) (simp add: algebra_simps)

lemma cross_sdiv_left: "np_cross (sdiv u k) v = sdiv (np_cross u v) k"
  by (cases u, cases v) (simp add: diff_divide_distrib)

lemma plane_eq_dot: "plane_eq a b c d p = np_dot (a, b, c) p + d"
  by (cases p) simp

lemma linalg_norm_nonneg: "0 \<le> linalg_norm v"
  by (cases v) simp

lemma linalg_norm_sq: "(linalg_norm (x, y, z))\<^sup>2 = x * x + y * y + z * z"
  by (simp add: power2_eq_square [symmetric])



lemma linalg_norm_sdiv:
  assumes "0 < k"
  shows "linalg_norm (sdiv v k) = linalg_norm v / k"
proof (cases v)
  case (fields x y z)
  have "(x / k) * (x / k) + (y / k) * (y / k) + (z / k) * (z / k) = (x * x + y * y + z * z) / k\<^sup>2"
    by (simp add: power2_eq_square add_divide_distrib)
  then show ?thesis
    using assms fields by (simp add: real_sqrt_divide)
qed





lemma linalg_norm_zero_iff: "linalg_norm (x, y, z) = 0 \<longleftrightarrow> x = 0 \<and> y = 0 \<and> z = 0"
proof -
  have "x * x + y * y + z * z = 0 \<longleftrightarrow> x = 0 \<and> y = 0 \<and> z = 0"
    by (smt (verit) mult_eq_0_iff zero_le_square add_nonneg_eq_0_iff add_nonneg_nonneg)
  then show ?thesis by simp
qed

lemma linalg_norm_pos: "v \<noteq> (0, 0, 0) \<Longrightarrow> 0 < linalg_norm v"
  using linalg_norm_nonneg [of v] linalg_norm_zero_iff by (cases v) (smt (verit) prod.inject)

lemma norm_sdiv_self:
  assumes "linalg_norm v \<noteq> 0"
  shows "linalg_norm (sdiv v (linalg_norm v)) = 1"
proof -
  have "0 < linalg_norm v" using assms linalg_norm_nonneg [of v] by linarith
  then show ?thesis by (simp add: linalg_norm_sdiv)
qed

lemma dot_self: "np_dot v v = (linalg_norm v)\<^sup>2"
  by (cases v) (simp add: linalg_norm_sq del: linalg_norm.simps)

lemma dot_vsub_right: "np_dot u (vsub v w) = np_dot u v - np_dot u w"
  by (cases u, cases v, cases w) (simp add: algebra_simps)

lemma vsub_vadd: "vsub (vadd u w) v = vadd (vsub u v) w"
  by (cases u, cases v, cases w) simp

lemma dot_of_units:
  "np_dot (sdiv u (linalg_norm u)) (sdiv v (linalg_norm v))
     = np_dot u v / linalg_norm u / linalg_norm v"
  by (simp only: dot_sdiv_left dot_sdiv_right)

text \<open>Clipping to \<open>[-1, 1]\<close> keeps the sign, and \<open>arccos\<close> is obtuse exactly on negatives.\<close>

lemma clip_unit_neg:
  assumes "x < 0"
  shows "- 1 \<le> np_clip x (- 1) 1 \<and> np_clip x (- 1) 1 < 0"
  using assms by (simp add: np_clip_def)

lemma clip_unit_pos:
  assumes "0 < x"
  shows "0 < np_clip x (- 1) 1 \<and> np_clip x (- 1) 1 \<le> 1"
  using assms by (simp add: np_clip_def)

lemma arccos_neg_obtuse:
  assumes "- 1 \<le> x" and "x < 0"
  shows "pi / 2 < arccos x"
proof -
  have "arccos 0 < arccos x" using assms by (subst arccos_less_mono) simp_all
  then show ?thesis by simp
qed

lemma arccos_pos_acute:
  assumes "0 < x" and "x \<le> 1"
  shows "arccos x < pi / 2"
proof -
  have "arccos x < arccos 0" using assms by (subst arccos_less_mono) simp_all
  then show ?thesis by simp
qed

section \<open>The general form\<close>

lemma general_point:
  "frame_point (make_plane_general a b c d) =
     (if \<bar>a\<bar> > 1 / 1000000 then (- d / a, 0, 0)
      else if \<bar>b\<bar> > 1 / 1000000 then (0, - d / b, 0)
      else if \<bar>c\<bar> > 1 / 1000000 then (0, 0, - d / c)
      else (0, 0, 0))"
  by (simp add: make_plane_general_def Let_def)

lemma general_normal:
  "frame_normal (make_plane_general a b c d)
     = sdiv (a, b, c) (linalg_norm (a, b, c) + 1 / 1000000000000)"
  by (simp add: make_plane_general_def Let_def)

lemma general_e1_orth: "np_dot (a, b, c) (frame_e1 (make_plane_general a b c d)) = 0"
  by (simp only: make_plane_general_def Let_def plane_frame.simps cross_sdiv_left
      dot_sdiv_right dot_cross_left div_0)

lemma general_e2_orth: "np_dot (a, b, c) (frame_e2 (make_plane_general a b c d)) = 0"
  by (simp only: make_plane_general_def Let_def plane_frame.simps cross_sdiv_left
      dot_sdiv_right dot_cross_left div_0)

lemma general_point_on_plane:
  assumes "\<bar>a\<bar> > 1 / 1000000 \<or> \<bar>b\<bar> > 1 / 1000000 \<or> \<bar>c\<bar> > 1 / 1000000"
  shows "np_dot (a, b, c) (frame_point (make_plane_general a b c d)) + d = 0"
  using assms by (auto simp add: general_point)

text \<open>
  C10. When at least one of \<open>a\<close>, \<open>b\<close>, \<open>c\<close> exceeds the \<open>1e-6\<close> guard in magnitude, every
  point \<open>plane_point(u, v) = point_on_plane + 3u e1 + 3v e2\<close> of the surface satisfies
  \<open>a x + b y + c z + d = 0\<close> in exact real arithmetic, for all real \<open>u\<close> and \<open>v\<close>: both basis
  vectors are orthogonal to \<open>(a, b, c)\<close> and the chosen point lies on the plane.
\<close>

theorem plane_point_on_plane:
  assumes "\<bar>a\<bar> > 1 / 1000000 \<or> \<bar>b\<bar> > 1 / 1000000 \<or> \<bar>c\<bar> > 1 / 1000000"
  shows "plane_eq a b c d (plane_point (make_plane_general a b c d) u v) = 0"
  using general_point_on_plane [OF assms, of d]
  by (simp add: plane_eq_dot plane_point_def dot_vadd_right dot_smul_right
      general_e1_orth general_e2_orth)

text \<open>The plane of the first concept, \<open>a=2, b=-1, c=1.2, d=-1.5\<close>, at the corner \<open>u=1, v=-1\<close>.\<close>

theorem plane_point_on_plane_witness:
  "(\<bar>2::real\<bar> > 1 / 1000000 \<or> \<bar>- 1::real\<bar> > 1 / 1000000 \<or> \<bar>1.2::real\<bar> > 1 / 1000000)
   \<and> plane_eq 2 (- 1) 1.2 (- 1.5) (plane_point (make_plane_general 2 (- 1) 1.2 (- 1.5)) 1 (- 1)) = 0"
  using plane_point_on_plane [of 2 "- 1" "1.2" "- 1.5" 1 "- 1"] by simp

text \<open>
  C4, as the code has it. When at least one of \<open>a\<close>, \<open>b\<close>, \<open>c\<close> exceeds \<open>1e-6\<close> in magnitude,
  the point on the plane is the axis intercept of the first coefficient that does
  (\<open>(-d/a, 0, 0)\<close>, else \<open>(0, -d/b, 0)\<close>, else \<open>(0, 0, -d/c)\<close>), and it satisfies
  \<open>a x + b y + c z + d = 0\<close>; for \<open>a=2, b=-1, c=1.2, d=-1.5\<close> it is \<open>(0.75, 0, 0)\<close>.
\<close>

theorem general_point_is_intercept:
  assumes "\<bar>a\<bar> > 1 / 1000000 \<or> \<bar>b\<bar> > 1 / 1000000 \<or> \<bar>c\<bar> > 1 / 1000000"
  shows "frame_point (make_plane_general a b c d) =
           (if \<bar>a\<bar> > 1 / 1000000 then (- d / a, 0, 0)
            else if \<bar>b\<bar> > 1 / 1000000 then (0, - d / b, 0)
            else (0, 0, - d / c))
         \<and> plane_eq a b c d (frame_point (make_plane_general a b c d)) = 0
         \<and> frame_point (make_plane_general 2 (- 1) 1.2 (- 1.5)) = (0.75, 0, 0)"
proof (intro conjI)
  show "frame_point (make_plane_general a b c d) =
           (if \<bar>a\<bar> > 1 / 1000000 then (- d / a, 0, 0)
            else if \<bar>b\<bar> > 1 / 1000000 then (0, - d / b, 0)
            else (0, 0, - d / c))"
    using assms by (auto simp add: general_point)
  show "plane_eq a b c d (frame_point (make_plane_general a b c d)) = 0"
    using general_point_on_plane [OF assms] by (simp add: plane_eq_dot)
  show "frame_point (make_plane_general 2 (- 1) 1.2 (- 1.5)) = (0.75, 0, 0)"
    by (simp add: general_point)
qed

text \<open>A plane with \<open>a = 0\<close>: the second branch gives the intercept on the y axis.\<close>

theorem general_point_is_intercept_witness:
  "(\<bar>0::real\<bar> > 1 / 1000000 \<or> \<bar>3::real\<bar> > 1 / 1000000 \<or> \<bar>5::real\<bar> > 1 / 1000000)
   \<and> frame_point (make_plane_general 0 3 5 6) = (0, - 2, 0)
   \<and> plane_eq 0 3 5 6 (0, - 2, 0) = 0"
  using general_point_is_intercept [of 0 3 5 6] by simp

text \<open>
  The claim as the specification states it, for every \<open>(a, b, c)\<close> other than zero, fails below
  the guard: for \<open>a = 1e-7, b = c = 0, d = 1\<close> no branch fires, the point is the origin, and the
  plane equation evaluates to \<open>1\<close> there.
\<close>

theorem general_point_small_coefficients_counterexample:
  "((1 / 10000000, 0, 0) :: vec3) \<noteq> (0, 0, 0)
   \<and> frame_point (make_plane_general (1 / 10000000) 0 0 1) = (0, 0, 0)
   \<and> plane_eq (1 / 10000000) 0 0 1 (frame_point (make_plane_general (1 / 10000000) 0 0 1)) = 1"
  by (simp add: general_point)




section \<open>The normal form\<close>

lemma normal_form_fields:
  assumes "linalg_norm (l, m, n) \<noteq> 0"
  shows "frame_normal (make_plane_normal_form l m n p) = sdiv (l, m, n) (linalg_norm (l, m, n))"
    and "frame_point (make_plane_normal_form l m n p)
           = smul p (sdiv (l, m, n) (linalg_norm (l, m, n)))"
  using assms
  by (simp_all add: make_plane_normal_form_def Let_def
      del: linalg_norm.simps sdiv.simps smul.simps)

text \<open>
  C2, as the code has it. For \<open>(l, m, n)\<close> other than zero the constructor divides \<open>(l, m, n)\<close>
  by its length, which gives a vector of length one, and returns as point on the plane that
  unit normal times \<open>p\<close> itself: \<open>p\<close> is not divided by the original length, and the point is at
  signed distance \<open>p\<close> along the unit normal from the origin.
\<close>

theorem normal_form_point_not_rescaled:
  assumes "(l, m, n) \<noteq> (0, 0, 0)"
  shows "frame_normal (make_plane_normal_form l m n p) = sdiv (l, m, n) (linalg_norm (l, m, n))
         \<and> linalg_norm (frame_normal (make_plane_normal_form l m n p)) = 1
         \<and> frame_point (make_plane_normal_form l m n p)
             = smul p (frame_normal (make_plane_normal_form l m n p))
         \<and> np_dot (frame_normal (make_plane_normal_form l m n p))
             (frame_point (make_plane_normal_form l m n p)) = p"
proof -
  have nz: "linalg_norm (l, m, n) \<noteq> 0"
    using assms by (simp only: linalg_norm_zero_iff) simp
  let ?u = "sdiv (l, m, n) (linalg_norm (l, m, n))"
  have u1: "linalg_norm ?u = 1" using nz by (rule norm_sdiv_self)
  have "np_dot ?u (smul p ?u) = p"
    by (simp only: dot_smul_right dot_self u1) simp
  then show ?thesis
    by (simp only: normal_form_fields [OF nz] u1)
qed

text \<open>A normal of length five: the point lies at distance ten, the \<open>p\<close> given, not at two.\<close>

theorem normal_form_point_not_rescaled_witness:
  "((3, 0, 4) :: vec3) \<noteq> (0, 0, 0)
   \<and> linalg_norm (frame_normal (make_plane_normal_form 3 0 4 10)) = 1
   \<and> np_dot (frame_normal (make_plane_normal_form 3 0 4 10))
        (frame_point (make_plane_normal_form 3 0 4 10)) = 10"
  using normal_form_point_not_rescaled [of 3 0 4 10] by simp

text \<open>
  The claim as the specification states it fails at the call the program itself makes,
  \<open>l=0.6, m=0.3, n=0.74, p=2.2\<close>, whose normal has squared length \<open>0.9976\<close>: the point returned
  is not the unit normal scaled by \<open>p\<close> over the original length.
\<close>

theorem normal_form_rescaling_counterexample:
  "((0.6, 0.3, 0.74) :: vec3) \<noteq> (0, 0, 0)
   \<and> frame_point (make_plane_normal_form 0.6 0.3 0.74 2.2)
       \<noteq> smul (2.2 / linalg_norm (0.6, 0.3, 0.74))
            (frame_normal (make_plane_normal_form 0.6 0.3 0.74 2.2))"
proof -
  let ?s = "linalg_norm (0.6, 0.3, 0.74)"
  have sq: "?s\<^sup>2 = 0.9976" by (simp only: linalg_norm_sq) simp
  have nz: "?s \<noteq> 0" by (simp only: linalg_norm_zero_iff) simp
  have pos: "0 < ?s" using nz linalg_norm_nonneg [of "(0.6, 0.3, 0.74)"] by linarith
  have ne1: "?s \<noteq> 1"
  proof
    assume "?s = 1"
    then have "?s\<^sup>2 = 1" by (simp only: one_power2)
    with sq show False by simp
  qed
  have "smul 2.2 (sdiv (0.6, 0.3, 0.74) ?s) \<noteq> smul (2.2 / ?s) (sdiv (0.6, 0.3, 0.74) ?s)"
    using pos ne1 by (simp del: linalg_norm.simps add: field_simps)
  then show ?thesis
    by (simp only: normal_form_fields [OF nz]) simp
qed

section \<open>Line and plane\<close>

text \<open>
  C5, as the code has it. The intersection never reports a parallel outcome: when
  \<open>|normal . direction|\<close> is at most \<open>1e-6\<close> it falls back to the start point of the line, and
  otherwise it returns \<open>line_start + t v\<close> with
  \<open>t = - normal . (line_start - plane_point) / (normal . v)\<close>, a point of the plane. For the line
  through \<open>(-2, -1.2, -1.5)\<close> with direction \<open>(1, 0.8, 0.6)\<close> and the plane through the origin
  with normal \<open>(0.2, 0.3, 1.0)\<close> that point is \<open>(9/52, 7/13, -51/260)\<close>.
\<close>

theorem line_plane_intersection:
  "make_line_plane_angle_example plane_pt normal v line_start =
     (if \<bar>np_dot normal v\<bar> > 1 / 1000000
      then vadd line_start (smul (- np_dot normal (vsub line_start plane_pt) / np_dot normal v) v)
      else line_start)
   \<and> (\<bar>np_dot normal v\<bar> > 1 / 1000000 \<longrightarrow>
        np_dot normal (vsub (make_line_plane_angle_example plane_pt normal v line_start) plane_pt) = 0)
   \<and> make_line_plane_angle_example (0, 0, 0) (0.2, 0.3, 1.0) (1.0, 0.8, 0.6) (- 2.0, - 1.2, - 1.5)
        = (9 / 52, 7 / 13, - (51 / 260))
   \<and> np_dot (0.2, 0.3, 1.0) (9 / 52, 7 / 13, - (51 / 260)) = 0"
proof (intro conjI impI)
  show "make_line_plane_angle_example plane_pt normal v line_start =
     (if \<bar>np_dot normal v\<bar> > 1 / 1000000
      then vadd line_start (smul (- np_dot normal (vsub line_start plane_pt) / np_dot normal v) v)
      else line_start)"
    by (simp add: make_line_plane_angle_example_def Let_def)
  show "np_dot normal (vsub (make_line_plane_angle_example plane_pt normal v line_start) plane_pt) = 0"
    if "\<bar>np_dot normal v\<bar> > 1 / 1000000"
  proof -
    have nz: "np_dot normal v \<noteq> 0" using that by auto
    show ?thesis
      using that nz
      by (simp add: make_line_plane_angle_example_def Let_def vsub_vadd dot_vadd_right
          dot_smul_right)
  qed
  show "make_line_plane_angle_example (0, 0, 0) (0.2, 0.3, 1.0) (1.0, 0.8, 0.6) (- 2.0, - 1.2, - 1.5)
        = (9 / 52, 7 / 13, - (51 / 260))"
    by (simp add: make_line_plane_angle_example_def Let_def)
  show "np_dot (0.2, 0.3, 1.0) (9 / 52, 7 / 13, - (51 / 260)) = 0"
    by simp
qed

text \<open>The line and plane of the fifth concept: the denominator is \<open>1.04\<close>.\<close>

theorem line_plane_intersection_witness:
  "\<bar>np_dot (0.2, 0.3, 1.0) (1.0, 0.8, 0.6)\<bar> > 1 / 1000000
   \<and> np_dot (0.2, 0.3, 1.0)
        (vsub (make_line_plane_angle_example (0, 0, 0) (0.2, 0.3, 1.0) (1.0, 0.8, 0.6)
                 (- 2.0, - 1.2, - 1.5)) (0, 0, 0)) = 0"
proof -
  have h: "\<bar>np_dot (0.2, 0.3, 1.0) (1.0, 0.8, 0.6)\<bar> > 1 / 1000000" by simp
  show ?thesis
    using h line_plane_intersection [of "(0, 0, 0)" "(0.2, 0.3, 1.0)" "(1.0, 0.8, 0.6)"
        "(- 2.0, - 1.2, - 1.5)"]
    by blast
qed

text \<open>
  The claim as the specification states it fails for a parallel line: the line through
  \<open>(0, 0, 1)\<close> with direction \<open>(1, 0, 0)\<close> never meets the plane \<open>z = 0\<close>, and the code returns
  the point \<open>(0, 0, 1)\<close>, which is off the plane.
\<close>

theorem line_plane_parallel_counterexample:
  "\<bar>np_dot (0, 0, 1) (1, 0, 0)\<bar> < 1 / 1000000
   \<and> make_line_plane_angle_example (0, 0, 0) (0, 0, 1) (1, 0, 0) (0, 0, 1) = (0, 0, 1)
   \<and> np_dot (0, 0, 1) (vsub (make_line_plane_angle_example (0, 0, 0) (0, 0, 1) (1, 0, 0) (0, 0, 1))
        (0, 0, 0)) = 1"
  by (simp add: make_line_plane_angle_example_def Let_def)

section \<open>Point and plane\<close>

lemma sqrt_244_bounds: "1.5620 < sqrt 2.44 \<and> sqrt 2.44 < 1.5621"
proof
  show "1.5620 < sqrt 2.44" by (rule real_less_rsqrt) (simp add: power2_eq_square)
  show "sqrt 2.44 < 1.5621" by (rule real_less_lsqrt) (simp_all add: power2_eq_square)
qed

lemma shown_value_literal:
  "shown_value (make_point_to_plane_distance_example 1.2 (- 0.6) 0.8 (- 1.0) (2.2, 1.1, 1.8))
     = 2.42 / sqrt 2.44"
  by (simp add: Let_def)

text \<open>
  C3, as the code has it. For \<open>P = (2.2, 1.1, 1.8)\<close> and \<open>a=1.2, b=-0.6, c=0.8, d=-1.0\<close> the
  unsigned distance \<open>|a x0 + b y0 + c z0 + d| / sqrt (a^2 + b^2 + c^2)\<close> is \<open>2.42 / sqrt 2.44\<close>,
  which is \<open>1.549\<close> to three decimals.
\<close>

theorem point_plane_distance_value:
  "\<bar>shown_value (make_point_to_plane_distance_example 1.2 (- 0.6) 0.8 (- 1.0) (2.2, 1.1, 1.8))
      - 1.549\<bar> < 0.0005"
proof -
  let ?s = "sqrt 2.44"
  have lo: "1.5620 < ?s" and hi: "?s < 1.5621" using sqrt_244_bounds by blast+
  have pos: "0 < ?s" by simp
  have "2.42 / ?s < 2.42 / 1.5620" using lo by (intro divide_strict_left_mono) simp_all
  moreover have "2.42 / 1.5621 < 2.42 / ?s" using hi pos by (intro divide_strict_left_mono) simp_all
  ultimately have "\<bar>2.42 / ?s - 1.549\<bar> < 0.0005" by simp
  then show ?thesis by (simp only: shown_value_literal)
qed

text \<open>
  The value of the specification, \<open>0.713\<close>, is off by more than \<open>0.8\<close>.
\<close>

theorem point_plane_distance_value_counterexample:
  "0.8 < shown_value (make_point_to_plane_distance_example 1.2 (- 0.6) 0.8 (- 1.0) (2.2, 1.1, 1.8))
           - 0.713"
proof -
  let ?s = "sqrt 2.44"
  have hi: "?s < 1.5621" using sqrt_244_bounds by blast
  have pos: "0 < ?s" by simp
  have "2.42 / 1.5621 < 2.42 / ?s" using hi pos by (intro divide_strict_left_mono) simp_all
  then have "0.8 < 2.42 / ?s - 0.713" by simp
  then show ?thesis by (simp only: shown_value_literal)
qed

section \<open>Two planes\<close>

text \<open>
  C1, on the code. The angle is \<open>arccos\<close> of the clipped dot product of the unit normals, with
  no absolute value. At the normals the source writes, \<open>(1, 0.8, 0.2)\<close> and \<open>(0.2, -1, 0.6)\<close>,
  the dot product is negative and the angle exceeds \<open>pi/2\<close>; with the second normal negated it
  is below \<open>pi/2\<close>, so negating a normal changes the result.
\<close>

theorem angle_between_planes_example_obtuse:
  "pi / 2 < make_angle_between_planes_example n1_literal n2_literal
   \<and> make_angle_between_planes_example n1_literal (smul (- 1) n2_literal) < pi / 2"
proof
  have p1: "0 < linalg_norm n1_literal"
    by (rule linalg_norm_pos) (simp add: n1_literal_def)
  have p2: "0 < linalg_norm n2_literal"
    by (rule linalg_norm_pos) (simp add: n2_literal_def)
  have p3: "0 < linalg_norm (smul (- 1) n2_literal)"
    by (rule linalg_norm_pos) (simp add: n2_literal_def)
  have d: "np_dot n1_literal n2_literal < 0"
    by (simp add: n1_literal_def n2_literal_def)
  have d': "0 < np_dot n1_literal (smul (- 1) n2_literal)"
    by (simp add: n1_literal_def n2_literal_def)
  have "np_dot n1_literal n2_literal / linalg_norm n1_literal / linalg_norm n2_literal < 0"
    using d p1 p2 by (simp add: divide_neg_pos)
  then have neg: "np_dot (sdiv n1_literal (linalg_norm n1_literal))
                    (sdiv n2_literal (linalg_norm n2_literal)) < 0"
    by (simp only: dot_of_units)
  show "pi / 2 < make_angle_between_planes_example n1_literal n2_literal"
    unfolding make_angle_between_planes_example_def Let_def
    using clip_unit_neg [OF neg] by (intro arccos_neg_obtuse) blast+
  have "0 < np_dot n1_literal (smul (- 1) n2_literal) / linalg_norm n1_literal
              / linalg_norm (smul (- 1) n2_literal)"
    using d' p1 p3 by simp
  then have pos: "0 < np_dot (sdiv n1_literal (linalg_norm n1_literal))
                    (sdiv (smul (- 1) n2_literal) (linalg_norm (smul (- 1) n2_literal)))"
    by (simp only: dot_of_units)
  show "make_angle_between_planes_example n1_literal (smul (- 1) n2_literal) < pi / 2"
    unfolding make_angle_between_planes_example_def Let_def
    using clip_unit_pos [OF pos] by (intro arccos_pos_acute) blast+
qed

section \<open>Variable colours\<close>



section \<open>The in-plane basis\<close>

lemma general_basis:
  "frame_e1 (make_plane_general a b c d) = basis_e1 (frame_normal (make_plane_general a b c d))"
  "frame_e2 (make_plane_general a b c d)
     = np_cross (frame_normal (make_plane_general a b c d)) (frame_e1 (make_plane_general a b c d))"
  by (simp_all add: make_plane_general_def basis_e1_def Let_def
      del: linalg_norm.simps sdiv.simps np_cross.simps)

lemma normal_form_basis:
  "frame_e1 (make_plane_normal_form l m n p) = basis_e1 (frame_normal (make_plane_normal_form l m n p))"
  "frame_e2 (make_plane_normal_form l m n p)
     = np_cross (frame_normal (make_plane_normal_form l m n p)) (frame_e1 (make_plane_normal_form l m n p))"
  by (simp_all add: make_plane_normal_form_def basis_e1_def Let_def
      del: linalg_norm.simps sdiv.simps np_cross.simps)














lemma basis_e1_coordinates:
  "basis_e1 (x, y, z) =
     (if \<bar>x\<bar> < 0.9 then sdiv (0, z, - y) (sqrt (z * z + y * y) + 1 / 1000000000000)
      else sdiv (- z, 0, x) (sqrt (z * z + x * x) + 1 / 1000000000000))"
  by (simp add: basis_e1_def Let_def)

text \<open>
  C8, as the code has it. The helper vector is the world X axis when \<open>|n[0]| < 0.9\<close> and the
  world Y axis when \<open>|n[0]| >= 0.9\<close> (so at exactly \<open>0.9\<close> it is Y); \<open>e1\<close> is the cross product
  of \<open>n\<close> with it, divided by its length plus \<open>1e-12\<close>, and \<open>e2\<close> is \<open>n\<close> cross \<open>e1\<close>. In
  coordinates, for the unit normal \<open>(l, m, n)\<close> of the normal form and for the normal
  \<open>(x, y, z)\<close> that the general form computes: \<open>e1\<close> is \<open>(0, z, -y)\<close> over its guarded length in
  the first case and \<open>(-z, 0, x)\<close> over its guarded length in the second.
\<close>

theorem basis_tie_break:
  "(linalg_norm (l, m, n) = 1 \<longrightarrow>
      frame_normal (make_plane_normal_form l m n p) = (l, m, n)
      \<and> frame_e1 (make_plane_normal_form l m n p) =
          (if \<bar>l\<bar> < 0.9 then sdiv (0, n, - m) (sqrt (n * n + m * m) + 1 / 1000000000000)
           else sdiv (- n, 0, l) (sqrt (n * n + l * l) + 1 / 1000000000000))
      \<and> frame_e2 (make_plane_normal_form l m n p)
          = np_cross (l, m, n) (frame_e1 (make_plane_normal_form l m n p)))
   \<and> (frame_normal (make_plane_general a b c d) = (x, y, z) \<longrightarrow>
      frame_e1 (make_plane_general a b c d) =
          (if \<bar>x\<bar> < 0.9 then sdiv (0, z, - y) (sqrt (z * z + y * y) + 1 / 1000000000000)
           else sdiv (- z, 0, x) (sqrt (z * z + x * x) + 1 / 1000000000000))
      \<and> frame_e2 (make_plane_general a b c d)
          = np_cross (x, y, z) (frame_e1 (make_plane_general a b c d)))"
proof (intro conjI impI)
  assume u: "linalg_norm (l, m, n) = 1"
  then have nz: "linalg_norm (l, m, n) \<noteq> 0" by simp
  show H: "frame_normal (make_plane_normal_form l m n p) = (l, m, n)"
    using u by (simp add: normal_form_fields(1) [OF nz] del: linalg_norm.simps)
  show "frame_e1 (make_plane_normal_form l m n p) =
          (if \<bar>l\<bar> < 0.9 then sdiv (0, n, - m) (sqrt (n * n + m * m) + 1 / 1000000000000)
           else sdiv (- n, 0, l) (sqrt (n * n + l * l) + 1 / 1000000000000))"
    by (simp only: normal_form_basis(1) H basis_e1_coordinates)
  show "frame_e2 (make_plane_normal_form l m n p)
          = np_cross (l, m, n) (frame_e1 (make_plane_normal_form l m n p))"
    using normal_form_basis(2) [of l m n p] by (simp only: H)
next
  assume G: "frame_normal (make_plane_general a b c d) = (x, y, z)"
  show "frame_e1 (make_plane_general a b c d) =
          (if \<bar>x\<bar> < 0.9 then sdiv (0, z, - y) (sqrt (z * z + y * y) + 1 / 1000000000000)
           else sdiv (- z, 0, x) (sqrt (z * z + x * x) + 1 / 1000000000000))"
    by (simp only: general_basis(1) G basis_e1_coordinates)
  show "frame_e2 (make_plane_general a b c d)
          = np_cross (x, y, z) (frame_e1 (make_plane_general a b c d))"
    using general_basis(2) [of a b c d] by (simp only: G)
qed

text \<open>The unit normal \<open>(0, 0, 1)\<close> takes the X axis; the general form of \<open>x = 0\<close> takes Y.\<close>

theorem basis_tie_break_witness:
  "linalg_norm (0, 0, 1) = 1
   \<and> frame_e1 (make_plane_normal_form 0 0 1 2) = (0, 1000000000000 / 1000000000001, 0)
   \<and> frame_e2 (make_plane_normal_form 0 0 1 2) = (- (1000000000000 / 1000000000001), 0, 0)
   \<and> frame_normal (make_plane_general 1 0 0 0) = (1000000000000 / 1000000000001, 0, 0)
   \<and> frame_e2 (make_plane_general 1 0 0 0)
       = np_cross (1000000000000 / 1000000000001, 0, 0) (frame_e1 (make_plane_general 1 0 0 0))"
proof -
  have h1: "linalg_norm (0, 0, 1) = 1" by simp
  have h2: "frame_normal (make_plane_general 1 0 0 0) = (1000000000000 / 1000000000001, 0, 0)"
    by (simp add: general_normal)
  show ?thesis
    using h1 h2 basis_tie_break [of 0 0 1 2 1 0 0 0 "1000000000000 / 1000000000001" 0 0]
    by simp
qed

text \<open>
  The claim as the specification states it fails on the boundary: the unit normal
  \<open>(0.9, sqrt 19 / 10, 0)\<close> has an X component that does not exceed \<open>0.9\<close>, yet the code takes
  the Y axis, and its \<open>e1\<close> points along \<open>+z\<close> where the X axis would give \<open>-z\<close>.
\<close>

theorem basis_tie_break_boundary_counterexample:
  "linalg_norm (0.9, sqrt 19 / 10, 0) = 1
   \<and> \<not> 0.9 < \<bar>0.9 :: real\<bar>
   \<and> frame_normal (make_plane_normal_form 0.9 (sqrt 19 / 10) 0 1) = (0.9, sqrt 19 / 10, 0)
   \<and> frame_e1 (make_plane_normal_form 0.9 (sqrt 19 / 10) 0 1)
       = sdiv (np_cross (0.9, sqrt 19 / 10, 0) (0, 1, 0))
           (linalg_norm (np_cross (0.9, sqrt 19 / 10, 0) (0, 1, 0)) + 1 / 1000000000000)
   \<and> frame_e1 (make_plane_normal_form 0.9 (sqrt 19 / 10) 0 1)
       \<noteq> sdiv (np_cross (0.9, sqrt 19 / 10, 0) (1, 0, 0))
           (linalg_norm (np_cross (0.9, sqrt 19 / 10, 0) (1, 0, 0)) + 1 / 1000000000000)
   \<and> frame_e1 (make_plane_normal_form 0.9 (sqrt 19 / 10) 0 1)
       \<noteq> sdiv (np_cross (0.9, sqrt 19 / 10, 0) (1, 0, 0))
           (linalg_norm (np_cross (0.9, sqrt 19 / 10, 0) (1, 0, 0)))"
proof -
  have u: "linalg_norm (0.9, sqrt 19 / 10, 0) = 1" by simp
  have nz: "linalg_norm (0.9, sqrt 19 / 10, 0) \<noteq> 0" using u by linarith
  have N: "frame_normal (make_plane_normal_form 0.9 (sqrt 19 / 10) 0 1) = (0.9, sqrt 19 / 10, 0)"
    by (simp add: normal_form_fields(1) [OF nz] u del: linalg_norm.simps)
  have s81: "sqrt (81 / 100) = 9 / 10"
    by (rule real_sqrt_unique) (simp_all add: power2_eq_square)
  have E: "frame_e1 (make_plane_normal_form 0.9 (sqrt 19 / 10) 0 1)
             = (0, 0, 0.9 / (0.9 + 1 / 1000000000000))"
    by (simp only: normal_form_basis(1) N basis_e1_coordinates) (simp add: s81)
  have Y: "sdiv (np_cross (0.9, sqrt 19 / 10, 0) (0, 1, 0))
             (linalg_norm (np_cross (0.9, sqrt 19 / 10, 0) (0, 1, 0)) + 1 / 1000000000000)
           = (0, 0, 0.9 / (0.9 + 1 / 1000000000000))"
    by (simp add: s81)
  have W: "np_cross (0.9, sqrt 19 / 10, 0) (1, 0, 0) = (0, 0, - (sqrt 19 / 10))"
    by simp
  have away: "(0, 0, 0.9 / (0.9 + 1 / 1000000000000)) \<noteq> sdiv (0, 0, - (sqrt 19 / 10)) k"
    if "0 \<le> k" for k :: real
  proof -
    have "- (sqrt 19 / 10) / k \<le> 0"
      using that by (intro divide_nonpos_nonneg) simp_all
    moreover have "(0::real) < 0.9 / (0.9 + 1 / 1000000000000)" by simp
    ultimately have "0.9 / (0.9 + 1 / 1000000000000) \<noteq> - (sqrt 19 / 10) / k" by linarith
    then show ?thesis by (simp del: divide_minus_left)
  qed
  have k1: "0 \<le> linalg_norm (0, 0, - (sqrt 19 / 10)) + 1 / 1000000000000"
    using linalg_norm_nonneg [of "(0, 0, - (sqrt 19 / 10))"] by linarith
  have k2: "0 \<le> linalg_norm (0, 0, - (sqrt 19 / 10))"
    by (rule linalg_norm_nonneg)
  show ?thesis
    unfolding E N W Y using u away [OF k1] away [OF k2] by simp
qed

end
